theory Spec2Isabelle
  imports Main
begin

section \<open>Python values and exceptions\<close>

text \<open>
  The queue subsystem of the repository: \<^verbatim>\<open>SQLiteQueue\<close> (jobs_queue.py), the watcher
  loop (queue_listener.py) and the corrective-action handler (corrective_actions.py).
  Payloads are Python values; the fragment modelled here is the data model of JSON
  without floating point numbers, plus one value \<open>PObject\<close> standing for an object that
  \<^verbatim>\<open>json.dumps\<close> refuses (such as \<^verbatim>\<open>object()\<close>). A \<^verbatim>\<open>dict\<close> is an association list in
  insertion order, its keys strings; a \<^verbatim>\<open>str\<close> is the list of its code points, which
  the model takes below 256.

  Exceptions are values of \<open>py_error\<close>. \<open>StorageError\<close> and \<open>NotFoundError\<close> are the
  two failures of the record store; \<open>HandlerError\<close> is whatever an external collaborator
  raises. \<open>Unmodelled\<close> is not a Python exception: the decoder answers it on JSON text
  that denotes a value outside the fragment (a floating point literal, an escape of
  a code point above 255) and when its recursion bound is used up, and no statement
  below concludes anything from it.
\<close>

datatype py_error =
    TypeError
  | KeyError
  | ValueError
  | AttributeError
  | JSONDecodeError
  | StorageError
  | NotFoundError
  | HandlerError string
  | Unmodelled

datatype pyval =
    PNone
  | PBool bool
  | PInt int
  | PStr string
  | PList "pyval list"
  | PDict "(string \<times> pyval) list"
  | PObject

section \<open>json.dumps\<close>

text \<open>
  \<^verbatim>\<open>json.dumps(obj)\<close> with its default arguments: \<^verbatim>\<open>ensure_ascii=True\<close>, the item
  separator \<^verbatim>\<open>", "\<close> and the key separator \<^verbatim>\<open>": "\<close>. Every character outside
  \<^verbatim>\<open>' '..'~'\<close>, the double quote and the backslash are escaped. An object that is not
  serializable anywhere inside \<open>obj\<close> makes the call raise \<^verbatim>\<open>TypeError\<close>, and no text
  is returned.
\<close>

fun digits :: "nat \<Rightarrow> string" where
  "digits n = (if n < 10 then [char_of (48 + n)] else digits (n div 10) @ [char_of (48 + n mod 10)])"

definition int_repr :: "int \<Rightarrow> string" where
  "int_repr i = (if i < 0 then CHR ''-'' # digits (nat (- i)) else digits (nat i))"

definition hex_digit :: "nat \<Rightarrow> char" where
  "hex_digit d = (if d < 10 then char_of (48 + d) else char_of (87 + d))"

definition escape_char :: "char \<Rightarrow> string" where
  "escape_char c =
     (if c = CHR 0x22 then [CHR 0x5C, CHR 0x22]
      else if c = CHR 0x5C then [CHR 0x5C, CHR 0x5C]
      else if c = CHR 0x0A then [CHR 0x5C, CHR ''n'']
      else if c = CHR 0x0D then [CHR 0x5C, CHR ''r'']
      else if c = CHR 0x09 then [CHR 0x5C, CHR ''t'']
      else if c = CHR 0x08 then [CHR 0x5C, CHR ''b'']
      else if c = CHR 0x0C then [CHR 0x5C, CHR ''f'']
      else if 32 \<le> (of_char c :: nat) \<and> (of_char c :: nat) \<le> 126 then [c]
      else [CHR 0x5C, CHR ''u'', CHR ''0'', CHR ''0'',
            hex_digit ((of_char c :: nat) div 16), hex_digit ((of_char c :: nat) mod 16)])"

definition encode_basestring_ascii :: "string \<Rightarrow> string" where
  "encode_basestring_ascii s = CHR 0x22 # concat (map escape_char s) @ [CHR 0x22]"

fun join :: "string \<Rightarrow> string list \<Rightarrow> string" where
  "join sep [] = []"
| "join sep [x] = x"
| "join sep (x # y # ys) = x @ sep @ join sep (y # ys)"

fun serializable :: "pyval \<Rightarrow> bool" where
  "serializable PObject = False"
| "serializable (PList xs) = list_all serializable xs"
| "serializable (PDict kvs) = list_all (\<lambda>kv. serializable (snd kv)) kvs"
| "serializable _ = True"

fun encode :: "pyval \<Rightarrow> string" where
  "encode PNone = ''null''"
| "encode (PBool b) = (if b then ''true'' else ''false'')"
| "encode (PInt i) = int_repr i"
| "encode (PStr s) = encode_basestring_ascii s"
| "encode (PList xs) = ''['' @ join '', '' (map encode xs) @ '']''"
| "encode (PDict kvs) =
     ''{'' @ join '', '' (map (\<lambda>kv. encode_basestring_ascii (fst kv) @ '': '' @ encode (snd kv)) kvs) @ ''}''"
| "encode PObject = []"

definition json_dumps :: "pyval \<Rightarrow> py_error + string" where
  "json_dumps obj = (if serializable obj then Inr (encode obj) else Inl TypeError)"

section \<open>json.loads\<close>

text \<open>
  The decoder follows \<^verbatim>\<open>json.decoder\<close> and \<^verbatim>\<open>json.scanner\<close>: white space is skipped
  where the library skips it, a string is scanned in strict mode (a raw control
  character is an error), a number is an optional minus sign followed by \<^verbatim>\<open>0\<close> or by a
  digit sequence that does not start with \<^verbatim>\<open>0\<close>, and the pairs of an object go through
  \<^verbatim>\<open>dict(pairs)\<close>, where a repeated key keeps its first position and its last value.
  The recursion of the scanner is bounded by a counter that \<open>json_loads\<close> starts above
  the length of the text.
\<close>

definition is_ws :: "char \<Rightarrow> bool" where
  "is_ws c = (c = CHR '' '' \<or> c = CHR 0x09 \<or> c = CHR 0x0A \<or> c = CHR 0x0D)"

definition skip_ws :: "string \<Rightarrow> string" where
  "skip_ws s = dropWhile is_ws s"

definition is_digit :: "char \<Rightarrow> bool" where
  "is_digit c = (48 \<le> (of_char c :: nat) \<and> (of_char c :: nat) \<le> 57)"

definition hex_value :: "char \<Rightarrow> nat option" where
  "hex_value c =
     (let n = (of_char c :: nat) in
      if 48 \<le> n \<and> n \<le> 57 then Some (n - 48)
      else if 97 \<le> n \<and> n \<le> 102 then Some (n - 87)
      else if 65 \<le> n \<and> n \<le> 70 then Some (n - 55)
      else None)"

definition backslash_decode :: "char \<Rightarrow> char option" where
  "backslash_decode e =
     (if e = CHR 0x22 then Some (CHR 0x22)
      else if e = CHR 0x5C then Some (CHR 0x5C)
      else if e = CHR ''/'' then Some (CHR ''/'')
      else if e = CHR ''b'' then Some (CHR 0x08)
      else if e = CHR ''f'' then Some (CHR 0x0C)
      else if e = CHR ''n'' then Some (CHR 0x0A)
      else if e = CHR ''r'' then Some (CHR 0x0D)
      else if e = CHR ''t'' then Some (CHR 0x09)
      else None)"

definition push_char :: "char \<Rightarrow> py_error + string \<times> string \<Rightarrow> py_error + string \<times> string" where
  "push_char c r = (case r of Inl e \<Rightarrow> Inl e | Inr (s, rest) \<Rightarrow> Inr (c # s, rest))"

fun scanstring :: "string \<Rightarrow> py_error + string \<times> string" where
  "scanstring [] = Inl JSONDecodeError"
| "scanstring (c # cs) =
     (if c = CHR 0x22 then Inr ([], cs)
      else if c = CHR 0x5C then
        (case cs of
           [] \<Rightarrow> Inl JSONDecodeError
         | e # cs1 \<Rightarrow>
             if e = CHR ''u'' then
               (case cs1 of
                  h1 # h2 # h3 # h4 # cs2 \<Rightarrow>
                    (case (hex_value h1, hex_value h2, hex_value h3, hex_value h4) of
                       (Some a, Some b, Some c, Some d) \<Rightarrow>
                         (if ((a * 16 + b) * 16 + c) * 16 + d < 256
                          then push_char (char_of (((a * 16 + b) * 16 + c) * 16 + d)) (scanstring cs2)
                          else Inl Unmodelled)
                     | _ \<Rightarrow> Inl JSONDecodeError)
                | _ \<Rightarrow> Inl JSONDecodeError)
             else
               (case backslash_decode e of
                  None \<Rightarrow> Inl JSONDecodeError
                | Some ch \<Rightarrow> push_char ch (scanstring cs1)))
      else if (of_char c :: nat) < 32 then Inl JSONDecodeError
      else push_char c (scanstring cs))"

definition int_of_digits :: "string \<Rightarrow> nat" where
  "int_of_digits ds = foldl (\<lambda>a c. 10 * a + ((of_char c :: nat) - 48)) 0 ds"

definition has_frac :: "string \<Rightarrow> bool" where
  "has_frac s = (case s of c # d # _ \<Rightarrow> c = CHR ''.'' \<and> is_digit d | _ \<Rightarrow> False)"

definition has_exp :: "string \<Rightarrow> bool" where
  "has_exp s =
     (case s of
        c # d # ds \<Rightarrow>
          (c = CHR ''e'' \<or> c = CHR ''E'') \<and>
          (is_digit d \<or> ((d = CHR ''+'' \<or> d = CHR ''-'') \<and> (case ds of x # _ \<Rightarrow> is_digit x | [] \<Rightarrow> False)))
      | _ \<Rightarrow> False)"

definition match_unsigned :: "string \<Rightarrow> (string \<times> string) option" where
  "match_unsigned s =
     (case s of
        [] \<Rightarrow> None
      | c # cs \<Rightarrow>
          if c = CHR ''0'' then Some ([c], cs)
          else if is_digit c then Some (takeWhile is_digit s, dropWhile is_digit s)
          else None)"

definition match_number :: "string \<Rightarrow> (py_error + pyval \<times> string) option" where
  "match_number s =
     (let (neg, body) = (case s of c # cs \<Rightarrow> if c = CHR ''-'' then (True, cs) else (False, s) | [] \<Rightarrow> (False, s))
      in case match_unsigned body of
           None \<Rightarrow> None
         | Some (ds, rest) \<Rightarrow>
             if has_frac rest \<or> has_exp rest then Some (Inl Unmodelled)
             else Some (Inr (PInt (if neg then - int (int_of_digits ds) else int (int_of_digits ds)), rest)))"

fun dict_set :: "(string \<times> pyval) list \<Rightarrow> string \<Rightarrow> pyval \<Rightarrow> (string \<times> pyval) list" where
  "dict_set [] k v = [(k, v)]"
| "dict_set ((k', v') # kvs) k v = (if k' = k then (k', v) # kvs else (k', v') # dict_set kvs k v)"

definition dict_of_pairs :: "(string \<times> pyval) list \<Rightarrow> (string \<times> pyval) list" where
  "dict_of_pairs pairs = foldl (\<lambda>d kv. dict_set d (fst kv) (snd kv)) [] pairs"

definition starts_with :: "string \<Rightarrow> string \<Rightarrow> bool" where
  "starts_with p s = (take (length p) s = p)"

fun scan_once :: "nat \<Rightarrow> string \<Rightarrow> py_error + pyval \<times> string"
and parse_array :: "nat \<Rightarrow> string \<Rightarrow> py_error + pyval list \<times> string"
and parse_object :: "nat \<Rightarrow> string \<Rightarrow> py_error + (string \<times> pyval) list \<times> string"
where
  "scan_once 0 s = Inl Unmodelled"
| "scan_once (Suc n) [] = Inl JSONDecodeError"
| "scan_once (Suc n) (c # cs) =
     (if c = CHR 0x22 then
        (case scanstring cs of Inl e \<Rightarrow> Inl e | Inr (str, rest) \<Rightarrow> Inr (PStr str, rest))
      else if c = CHR ''{'' then
        (let s1 = skip_ws cs in
         case s1 of
           [] \<Rightarrow> Inl JSONDecodeError
         | d # s2 \<Rightarrow>
             if d = CHR ''}'' then Inr (PDict [], s2)
             else if d = CHR 0x22 then
               (case parse_object n s2 of
                  Inl e \<Rightarrow> Inl e
                | Inr (pairs, rest) \<Rightarrow> Inr (PDict (dict_of_pairs pairs), rest))
             else Inl JSONDecodeError)
      else if c = CHR ''['' then
        (let s1 = skip_ws cs in
         case s1 of
           [] \<Rightarrow> Inl JSONDecodeError
         | d # s2 \<Rightarrow>
             if d = CHR '']'' then Inr (PList [], s2)
             else
               (case parse_array n s1 of
                  Inl e \<Rightarrow> Inl e
                | Inr (vals, rest) \<Rightarrow> Inr (PList vals, rest)))
      else if starts_with ''null'' (c # cs) then Inr (PNone, drop 4 (c # cs))
      else if starts_with ''true'' (c # cs) then Inr (PBool True, drop 4 (c # cs))
      else if starts_with ''false'' (c # cs) then Inr (PBool False, drop 5 (c # cs))
      else
        (case match_number (c # cs) of
           Some r \<Rightarrow> r
         | None \<Rightarrow>
             if starts_with ''NaN'' (c # cs) \<or> starts_with ''Infinity'' (c # cs)
                \<or> starts_with ''-Infinity'' (c # cs)
             then Inl Unmodelled else Inl JSONDecodeError))"
| "parse_array 0 s = Inl Unmodelled"
| "parse_array (Suc n) s =
     (case scan_once n s of
        Inl e \<Rightarrow> Inl e
      | Inr (v, s1) \<Rightarrow>
          (case skip_ws s1 of
             [] \<Rightarrow> Inl JSONDecodeError
           | d # s2 \<Rightarrow>
               if d = CHR '']'' then Inr ([v], s2)
               else if d = CHR '','' then
                 (case parse_array n (skip_ws s2) of
                    Inl e \<Rightarrow> Inl e
                  | Inr (vs, rest) \<Rightarrow> Inr (v # vs, rest))
               else Inl JSONDecodeError))"
| "parse_object 0 s = Inl Unmodelled"
| "parse_object (Suc n) s =
     (case scanstring s of
        Inl e \<Rightarrow> Inl e
      | Inr (key, s1) \<Rightarrow>
          (case skip_ws s1 of
             [] \<Rightarrow> Inl JSONDecodeError
           | d # s2 \<Rightarrow>
               if d \<noteq> CHR '':'' then Inl JSONDecodeError
               else
                 (case scan_once n (skip_ws s2) of
                    Inl e \<Rightarrow> Inl e
                  | Inr (v, s3) \<Rightarrow>
                      (case skip_ws s3 of
                         [] \<Rightarrow> Inl JSONDecodeError
                       | d' # s4 \<Rightarrow>
                           if d' = CHR ''}'' then Inr ([(key, v)], s4)
                           else if d' = CHR '','' then
                             (case skip_ws s4 of
                                [] \<Rightarrow> Inl JSONDecodeError
                              | q # s5 \<Rightarrow>
                                  if q \<noteq> CHR 0x22 then Inl JSONDecodeError
                                  else
                                    (case parse_object n s5 of
                                       Inl e \<Rightarrow> Inl e
                                     | Inr (kvs, rest) \<Rightarrow> Inr ((key, v) # kvs, rest)))
                           else Inl JSONDecodeError))))"

definition json_loads :: "string \<Rightarrow> py_error + pyval" where
  "json_loads s =
     (case scan_once (Suc (length s)) (skip_ws s) of
        Inl e \<Rightarrow> Inl e
      | Inr (obj, rest) \<Rightarrow> if skip_ws rest = [] then Inr obj else Inl JSONDecodeError)"

section \<open>The task record store\<close>

text \<open>
  One row of the \<^verbatim>\<open>queue\<close> table with the columns the code reads and writes: the id,
  the serialized payload and the status. The table is the list of its rows in insertion
  order, the oldest first. The two timestamp columns are read by no operation below.
\<close>

record row =
  row_id :: string
  row_data :: string
  row_status :: string

type_synonym queue_table = "row list"

text \<open>
  Modelled from the spec: the statement \<^verbatim>\<open>INSERT INTO queue (id, data) VALUES (?, ?)\<close>
  that \<^verbatim>\<open>QueueModel.raw_execute\<close> runs; the class \<^verbatim>\<open>QueueModel\<close> and the schema of the
  table are not among the sources. A new record is \<^verbatim>\<open>pending\<close>, and a duplicate id is a
  constraint violation (\<^verbatim>\<open>StorageError\<close>).
\<close>

definition insert_row :: "string \<Rightarrow> string \<Rightarrow> queue_table \<Rightarrow> py_error + queue_table" where
  "insert_row item_id data_json q =
     (if item_id \<in> set (map row_id q) then Inl StorageError
      else Inr (q @ [\<lparr>row_id = item_id, row_data = data_json, row_status = ''pending''\<rparr>]))"

text \<open>
  Modelled from the spec: \<^verbatim>\<open>QueueModel.get_first_pending_item\<close>, which is not among the
  sources. It returns the oldest record whose status is \<^verbatim>\<open>pending\<close>, or none.
\<close>

definition get_first_pending_item :: "queue_table \<Rightarrow> row option" where
  "get_first_pending_item q = find (\<lambda>r. row_status r = ''pending'') q"

text \<open>
  Modelled from the spec: \<^verbatim>\<open>QueueModel.set_processed\<close>, which is not among the sources.
  It sets the status of the record with the given id to \<^verbatim>\<open>processed\<close> and fails with
  \<^verbatim>\<open>NotFoundError\<close> when no record has that id.
\<close>

definition set_processed :: "string \<Rightarrow> queue_table \<Rightarrow> py_error + queue_table" where
  "set_processed message_id q =
     (if message_id \<in> set (map row_id q)
      then Inr (map (\<lambda>r. if row_id r = message_id then r\<lparr>row_status := ''processed''\<rparr> else r) q)
      else Inl NotFoundError)"

text \<open>
  The statement \<^verbatim>\<open>SELECT status, COUNT(*) as count FROM queue GROUP BY status\<close>: one
  result row for every status that occurs in the table, with the number of records
  that have it.
\<close>

definition select_count_group_by_status :: "queue_table \<Rightarrow> (string \<times> nat) list" where
  "select_count_group_by_status q =
     map (\<lambda>s. (s, length (filter (\<lambda>r. row_status r = s) q))) (remdups (map row_status q))"

section \<open>SQLiteQueue\<close>

text \<open>
  \<^verbatim>\<open>SQLiteQueue.enqueue\<close>. The id is \<^verbatim>\<open>str(uuid.uuid4())\<close>, which the model takes as an
  argument. The payload is serialized first and the row inserted after; an exception of
  either step leaves the method, so the result is the exception or the id, together with
  the table as the call leaves it.
\<close>

definition enqueue :: "string \<Rightarrow> pyval \<Rightarrow> queue_table \<Rightarrow> (py_error + string) \<times> queue_table" where
  "enqueue item_id data q =
     (case json_dumps data of
        Inl e \<Rightarrow> (Inl e, q)
      | Inr data_json \<Rightarrow>
          (case insert_row item_id data_json q of
             Inl e \<Rightarrow> (Inl e, q)
           | Inr q' \<Rightarrow> (Inr item_id, q')))"

text \<open>
  \<^verbatim>\<open>SQLiteQueue.get_stats\<close>: the dictionary built from the rows of the aggregation.
\<close>

definition get_stats :: "queue_table \<Rightarrow> (string \<rightharpoonup> nat)" where
  "get_stats q = map_of (select_count_group_by_status q)"

text \<open>Enqueueing a sequence of tasks in order, each with its own id.\<close>

fun enqueue_all :: "(string \<times> pyval) list \<Rightarrow> queue_table \<Rightarrow> queue_table" where
  "enqueue_all [] q = q"
| "enqueue_all ((item_id, data) # rest) q = enqueue_all rest (snd (enqueue item_id data q))"

text \<open>Marking a sequence of records processed, one call of \<^verbatim>\<open>set_processed\<close> for each id.\<close>

fun set_processed_all :: "string list \<Rightarrow> queue_table \<Rightarrow> py_error + queue_table" where
  "set_processed_all [] q = Inr q"
| "set_processed_all (i # is) q =
     (case set_processed i q of Inl e \<Rightarrow> Inl e | Inr q' \<Rightarrow> set_processed_all is q')"

text \<open>The row a successful \<open>enqueue\<close> of a task adds to the table.\<close>

definition pending_row :: "string \<times> pyval \<Rightarrow> row" where
  "pending_row t = \<lparr>row_id = fst t, row_data = encode (snd t), row_status = ''pending''\<rparr>"

text \<open>The table with every record whose id is in \<open>S\<close> set to \<^verbatim>\<open>processed\<close>.\<close>

definition mark_rows :: "string set \<Rightarrow> queue_table \<Rightarrow> queue_table" where
  "mark_rows S q = map (\<lambda>r. if row_id r \<in> S then r\<lparr>row_status := ''processed''\<rparr> else r) q"

text \<open>The wire format of a task: \<^verbatim>\<open>{"task": tag, "data": data}\<close>.\<close>

definition task_payload :: "string \<Rightarrow> pyval \<Rightarrow> pyval" where
  "task_payload tag data = PDict [(''task'', PStr tag), (''data'', data)]"

section \<open>Operations on Python values\<close>

text \<open>\<^verbatim>\<open>d.get(key)\<close>: only a dictionary has the method; a missing key gives \<^verbatim>\<open>None\<close>.\<close>

definition py_get :: "pyval \<Rightarrow> string \<Rightarrow> py_error + pyval" where
  "py_get d k =
     (case d of
        PDict kvs \<Rightarrow> (case map_of kvs k of None \<Rightarrow> Inr PNone | Some v \<Rightarrow> Inr v)
      | _ \<Rightarrow> Inl AttributeError)"

text \<open>
  \<^verbatim>\<open>d[key]\<close> with a string key: \<^verbatim>\<open>KeyError\<close> on a dictionary without the key,
  \<^verbatim>\<open>TypeError\<close> on every other value.
\<close>

definition py_getitem :: "pyval \<Rightarrow> string \<Rightarrow> py_error + pyval" where
  "py_getitem d k =
     (case d of
        PDict kvs \<Rightarrow> (case map_of kvs k of None \<Rightarrow> Inl KeyError | Some v \<Rightarrow> Inr v)
      | _ \<Rightarrow> Inl TypeError)"

text \<open>The truth value of \<^verbatim>\<open>not x\<close> negated.\<close>

fun truthy :: "pyval \<Rightarrow> bool" where
  "truthy PNone = False"
| "truthy (PBool b) = b"
| "truthy (PInt i) = (i \<noteq> 0)"
| "truthy (PStr s) = (s \<noteq> [])"
| "truthy (PList xs) = (xs \<noteq> [])"
| "truthy (PDict kvs) = (kvs \<noteq> [])"
| "truthy PObject = True"

text \<open>\<^verbatim>\<open>"literal" + x\<close>: concatenation with anything but a string raises \<^verbatim>\<open>TypeError\<close>.\<close>

definition str_concat :: "string \<Rightarrow> pyval \<Rightarrow> py_error + string" where
  "str_concat s x = (case x of PStr t \<Rightarrow> Inr (s @ t) | _ \<Rightarrow> Inl TypeError)"

text \<open>
  \<^verbatim>\<open>str.strip()\<close>: the white space of a \<^verbatim>\<open>str\<close> below code point 256.
\<close>

definition is_space :: "char \<Rightarrow> bool" where
  "is_space c = ((of_char c :: nat) \<in> {9, 10, 11, 12, 13, 28, 29, 30, 31, 32, 133, 160})"

definition strip :: "string \<Rightarrow> string" where
  "strip s = rev (dropWhile is_space (rev (dropWhile is_space s)))"

section \<open>The world of the watcher\<close>

text \<open>
  What a run leaves behind besides the table: the lines it prints, the calls it makes
  to its collaborators and the pauses of the loop, in order. A line whose text holds
  characters above code point 255 is an event of its own, with the values the line
  formats.
\<close>

datatype event =
    Print string
  | PrintValue pyval
  | Sleep nat
  | LogStarted
  | SetProcessed string
  | TransporterProcess pyval
  | HandleMessage pyval
  | SimilaritySearch string nat
  | LlmInvoke string
  | DbExecute pyval string
  | DbCommit
  | DbRollback
  | LogQueryingRag string
  | LogGenerated string
  | LogSuccess pyval
  | LogError py_error
  | LogRagError py_error
  | LogDbUpdated pyval
  | LogDbError py_error

record world =
  queue :: queue_table
  trace :: "event list"

definition emit :: "event \<Rightarrow> world \<Rightarrow> world" where
  "emit ev w = w\<lparr>trace := trace w @ [ev]\<rparr>"

text \<open>
  The collaborators outside the queue: \<^verbatim>\<open>Transporter().process\<close> of the agent
  pipeline (\<open>None\<close> when it returns, the exception when it raises), the similarity
  search of the vector store (the page contents of the documents found), the language
  model (the content of its response) and the \<^verbatim>\<open>UPDATE\<close> of the table
  \<^verbatim>\<open>classifier_outputs\<close> (the number of rows changed). None of them touches the
  \<^verbatim>\<open>queue\<close> table.
\<close>

record env =
  transporter_process :: "pyval \<Rightarrow> py_error option"
  similarity_search :: "string \<Rightarrow> nat \<Rightarrow> py_error + string list"
  llm_invoke :: "string \<Rightarrow> py_error + string"
  db_execute :: "pyval \<Rightarrow> string \<Rightarrow> py_error + nat"

section \<open>The corrective-action handler\<close>

definition nl :: string where
  "nl = [CHR 0x0A]"

text \<open>The numbered cases of the context, \<^verbatim>\<open>f"Case {i+1}: {doc.page_content}"\<close>.\<close>

fun case_lines :: "nat \<Rightarrow> string list \<Rightarrow> string list" where
  "case_lines i [] = []"
| "case_lines i (doc # docs) = (''Case '' @ digits (i + 1) @ '': '' @ doc) # case_lines (i + 1) docs"

definition build_prompt :: "string \<Rightarrow> string \<Rightarrow> string" where
  "build_prompt query context =
     ''Based on the following incident and similar historical cases, provide a clear and actionable corrective action.'' @ nl @
     nl @
     ''**Current Incident:**'' @ nl @
     query @ nl @
     nl @
     ''**Similar Historical Cases:**'' @ nl @
     context @ nl @
     nl @
     ''**Instructions:**'' @ nl @
     ''- Provide specific, actionable steps'' @ nl @
     ''- Be concise and clear'' @ nl @
     ''- Focus on resolution and prevention'' @ nl @
     ''- If no similar cases exist, provide general best practices'' @ nl @
     nl @
     ''**Corrective Action:**''"

text \<open>
  \<^verbatim>\<open>get_corrective_action_from_rag\<close>: an exception of the search or of the model is
  printed and raised again.
\<close>

definition get_corrective_action_from_rag :: "env \<Rightarrow> string \<Rightarrow> world \<Rightarrow> (py_error + string) \<times> world" where
  "get_corrective_action_from_rag ev query w =
     (let w1 = emit (SimilaritySearch query 3) w in
      case similarity_search ev query 3 of
        Inl e \<Rightarrow> (Inl e, emit (LogRagError e) w1)
      | Inr results \<Rightarrow>
          (let context = (if results = [] then ''No similar historical cases found.''
                          else join (nl @ nl) (case_lines 0 results));
               prompt = build_prompt query context;
               w2 = emit (LlmInvoke prompt) w1
           in case llm_invoke ev prompt of
                Inl e \<Rightarrow> (Inl e, emit (LogRagError e) w2)
              | Inr content \<Rightarrow> (Inr (strip content), w2)))"

text \<open>
  \<^verbatim>\<open>update_corrective_action_db\<close>: no row changed is a \<^verbatim>\<open>ValueError\<close>; every exception
  rolls back, is printed and raised again.
\<close>

definition update_corrective_action_db :: "env \<Rightarrow> pyval \<Rightarrow> string \<Rightarrow> world \<Rightarrow> (py_error + unit) \<times> world" where
  "update_corrective_action_db ev classifier_id corrective_action w =
     (let w1 = emit (DbExecute classifier_id corrective_action) w in
      case db_execute ev classifier_id corrective_action of
        Inl e \<Rightarrow> (Inl e, emit (LogDbError e) (emit DbRollback w1))
      | Inr rowcount \<Rightarrow>
          if rowcount = 0 then (Inl ValueError, emit (LogDbError ValueError) (emit DbRollback w1))
          else (Inr (), emit (LogDbUpdated classifier_id) (emit DbCommit w1)))"

text \<open>
  \<^verbatim>\<open>process_corrective_action\<close>: the whole body is inside \<^verbatim>\<open>try\<close>, and every exception
  is printed and turned into the result \<^verbatim>\<open>False\<close>. The description read from the field
  \<^verbatim>\<open>error_message\<close> is overwritten before it is used.
\<close>

definition process_corrective_action :: "env \<Rightarrow> pyval \<Rightarrow> world \<Rightarrow> bool \<times> world" where
  "process_corrective_action ev data w =
     (case py_get data ''payload_id'' of
        Inl e \<Rightarrow> (False, emit (LogError e) w)
      | Inr classifier_id \<Rightarrow>
          (case py_get data ''error_message'' of
             Inl e \<Rightarrow> (False, emit (LogError e) w)
           | Inr _ \<Rightarrow>
               if \<not> truthy classifier_id then (False, emit (LogError ValueError) w)
               else
                 (let incident_description = ''No incident description provided'';
                      w1 = emit (LogQueryingRag (take 100 incident_description)) w
                  in case get_corrective_action_from_rag ev incident_description w1 of
                       (Inl e, w2) \<Rightarrow> (False, emit (LogError e) w2)
                     | (Inr corrective_action, w2) \<Rightarrow>
                         (let w3 = emit (LogGenerated (take 100 corrective_action)) w2 in
                          case update_corrective_action_db ev classifier_id corrective_action w3 of
                            (Inl e, w4) \<Rightarrow> (False, emit (LogError e) w4)
                          | (Inr _, w4) \<Rightarrow> (True, emit (LogSuccess classifier_id) w4)))))"

text \<open>\<^verbatim>\<open>handle_message\<close>: the integration point the watcher calls with the payload.\<close>

definition handle_message :: "env \<Rightarrow> pyval \<Rightarrow> world \<Rightarrow> py_error option \<times> world" where
  "handle_message ev message w0 =
     (let w = emit (HandleMessage message) w0 in
      case py_get message ''task'' of
        Inl e \<Rightarrow> (Some e, w)
      | Inr t \<Rightarrow>
          if t = PStr ''set_corrective_action'' then
            (case py_getitem message ''data'' of
               Inl e \<Rightarrow> (Some e, w)
             | Inr d \<Rightarrow> (None, snd (process_corrective_action ev d w)))
          else (None, w))"

section \<open>The watcher loop\<close>

record message =
  msg_id :: string
  msg_data :: pyval

definition POLL_INTERVAL :: nat where
  "POLL_INTERVAL = 1"

text \<open>
  \<^verbatim>\<open>get_pending_message\<close>: the first pending row with its payload deserialized; an
  exception of \<^verbatim>\<open>json.loads\<close> leaves the function.
\<close>

definition get_pending_message :: "queue_table \<Rightarrow> py_error + message option" where
  "get_pending_message q =
     (case get_first_pending_item q of
        None \<Rightarrow> Inr None
      | Some r \<Rightarrow>
          (case json_loads (row_data r) of
             Inl e \<Rightarrow> Inl e
           | Inr d \<Rightarrow> Inr (Some \<lparr>msg_id = row_id r, msg_data = d\<rparr>)))"

definition mark_message_processed :: "string \<Rightarrow> world \<Rightarrow> py_error option \<times> world" where
  "mark_message_processed message_id w =
     (case set_processed message_id (queue w) of
        Inl e \<Rightarrow> (Some e, emit (SetProcessed message_id) w)
      | Inr q' \<Rightarrow> (None, emit (SetProcessed message_id) (w\<lparr>queue := q'\<rparr>)))"

text \<open>
  One pass through the body of \<^verbatim>\<open>while True\<close> in \<^verbatim>\<open>watch_queue\<close>. The result is \<open>None\<close>
  when the pass reaches its end (or its \<^verbatim>\<open>continue\<close>), and the exception when one
  leaves the body: the loop has no \<^verbatim>\<open>try\<close>.
\<close>

definition watch_cycle :: "env \<Rightarrow> world \<Rightarrow> py_error option \<times> world" where
  "watch_cycle ev w =
     (case get_pending_message (queue w) of
        Inl e \<Rightarrow> (Some e, w)
      | Inr None \<Rightarrow> (None, emit (Sleep POLL_INTERVAL) (emit (Print ''No pending messages. Waiting...'') w))
      | Inr (Some m) \<Rightarrow>
          (case py_getitem (msg_data m) ''task'' of
             Inl e \<Rightarrow> (Some e, w)
           | Inr task \<Rightarrow>
               (case str_concat ''Processing '' task of
                  Inl e \<Rightarrow> (Some e, w)
                | Inr s \<Rightarrow>
                    (let w1 = emit (Print (s @ '' with id: '' @ msg_id m)) w in
                     if task = PStr ''llm_invoke'' then
                       (case py_getitem (msg_data m) ''data'' of
                          Inl e \<Rightarrow> (Some e, w1)
                        | Inr d \<Rightarrow>
                            (let w2 = emit (TransporterProcess d) w1 in
                             case transporter_process ev d of
                               Some e \<Rightarrow> (Some e, w2)
                             | None \<Rightarrow> (None, emit (Sleep POLL_INTERVAL) w2)))
                     else if task = PStr ''set_corrective_action'' then
                       (case mark_message_processed (msg_id m) w1 of
                          (Some e, w2) \<Rightarrow> (Some e, w2)
                        | (None, w2) \<Rightarrow>
                            (case handle_message ev (msg_data m) w2 of
                               (Some e, w3) \<Rightarrow> (Some e, w3)
                             | (None, w3) \<Rightarrow>
                                 (None, emit (Sleep POLL_INTERVAL) (emit (PrintValue (msg_data m)) w3))))
                     else if task = PStr ''sourav-producer2'' then
                       (None, emit (Sleep POLL_INTERVAL) (emit (Print ''Sourav Block 2'') w1))
                     else
                       (case mark_message_processed (msg_id m) w1 of
                          (Some e, w2) \<Rightarrow> (Some e, w2)
                        | (None, w2) \<Rightarrow> (None, emit (Sleep POLL_INTERVAL) w2))))))"

text \<open>
  The loop itself never returns; it ends only when an exception leaves the body. The
  model runs at most \<open>n\<close> passes: the result is the exception that ended the loop, or
  \<open>None\<close> when the loop is still running after \<open>n\<close> passes.
\<close>

fun watch_loop :: "env \<Rightarrow> nat \<Rightarrow> world \<Rightarrow> py_error option \<times> world" where
  "watch_loop ev 0 w = (None, w)"
| "watch_loop ev (Suc n) w =
     (case watch_cycle ev w of
        (Some e, w') \<Rightarrow> (Some e, w')
      | (None, w') \<Rightarrow> watch_loop ev n w')"

definition watch_queue :: "env \<Rightarrow> nat \<Rightarrow> world \<Rightarrow> py_error option \<times> world" where
  "watch_queue ev n w = watch_loop ev n (emit LogStarted w)"

text \<open>An event that is the call of a task handler.\<close>

fun is_handler_call :: "event \<Rightarrow> bool" where
  "is_handler_call (TransporterProcess d) = True"
| "is_handler_call (HandleMessage d) = True"
| "is_handler_call _ = False"

section \<open>Enqueue fails before it writes\<close>

text \<open>
  C9. When serializing the payload fails, \<open>enqueue\<close> raises that exception and the table
  is the one it was called with: the insert is never reached, so no partial record
  exists.
\<close>

theorem enqueue_serialization_error_leaves_store:
  "json_dumps data = Inl e \<Longrightarrow> enqueue item_id data q = (Inl e, q)"
  by (simp add: enqueue_def)

theorem enqueue_serialization_error_leaves_store_witness:
  "json_dumps (PDict [(''task'', PStr ''llm_invoke''), (''data'', PObject)]) = Inl TypeError
   \<and> enqueue ''id-1'' (PDict [(''task'', PStr ''llm_invoke''), (''data'', PObject)])
         [\<lparr>row_id = ''id-0'', row_data = ''{}'', row_status = ''pending''\<rparr>]
       = (Inl TypeError, [\<lparr>row_id = ''id-0'', row_data = ''{}'', row_status = ''pending''\<rparr>])"
proof -
  have h: "json_dumps (PDict [(''task'', PStr ''llm_invoke''), (''data'', PObject)]) = Inl TypeError"
    by (simp add: json_dumps_def)
  show ?thesis
    using h enqueue_serialization_error_leaves_store [OF h, of "''id-1''"
      "[\<lparr>row_id = ''id-0'', row_data = ''{}'', row_status = ''pending''\<rparr>]"]
    by simp
qed

end
